theory Spec2Isabelle
  imports Complex_Main
begin

section \<open>Text\<close>

text \<open>
  A Python \<open>str\<close> is modelled as a \<open>string\<close> holding the UTF-8 bytes of the text.
  The literals of the program that are not ASCII (emoji, stars, dashes) are written
  byte by byte. Substring search on UTF-8 bytes agrees with Python's search on code
  points, since the encoding is self-synchronising.
\<close>

text \<open>
  The characters that \<open>str.strip()\<close> removes, each as its UTF-8 encoding: the ASCII
  ones (U+0009 to U+000D, U+001C to U+0020) and U+0085, U+00A0, U+1680, U+2000 to
  U+200A, U+2028, U+2029, U+202F, U+205F, U+3000.
\<close>

definition whitespace :: "string list" where
  "whitespace =
     [[CHR 0x09], [CHR 0x0A], [CHR 0x0B], [CHR 0x0C], [CHR 0x0D],
      [CHR 0x1C], [CHR 0x1D], [CHR 0x1E], [CHR 0x1F], [CHR 0x20],
      [CHR 0xC2, CHR 0x85], [CHR 0xC2, CHR 0xA0],
      [CHR 0xE1, CHR 0x9A, CHR 0x80],
      [CHR 0xE2, CHR 0x80, CHR 0x80], [CHR 0xE2, CHR 0x80, CHR 0x81],
      [CHR 0xE2, CHR 0x80, CHR 0x82], [CHR 0xE2, CHR 0x80, CHR 0x83],
      [CHR 0xE2, CHR 0x80, CHR 0x84], [CHR 0xE2, CHR 0x80, CHR 0x85],
      [CHR 0xE2, CHR 0x80, CHR 0x86], [CHR 0xE2, CHR 0x80, CHR 0x87],
      [CHR 0xE2, CHR 0x80, CHR 0x88], [CHR 0xE2, CHR 0x80, CHR 0x89],
      [CHR 0xE2, CHR 0x80, CHR 0x8A],
      [CHR 0xE2, CHR 0x80, CHR 0xA8], [CHR 0xE2, CHR 0x80, CHR 0xA9],
      [CHR 0xE2, CHR 0x80, CHR 0xAF],
      [CHR 0xE2, CHR 0x81, CHR 0x9F],
      [CHR 0xE3, CHR 0x80, CHR 0x80]]"

definition starts_with :: "string \<Rightarrow> string \<Rightarrow> bool" where
  "starts_with w s \<longleftrightarrow> w \<noteq> [] \<and> take (length w) s = w"

text \<open>Drop leading blocks taken from \<open>ws\<close> for as long as one of them leads the string.\<close>

function strip_left :: "string list \<Rightarrow> string \<Rightarrow> string" where
  "strip_left ws s =
     (case find (\<lambda>w. starts_with w s) ws of
        None \<Rightarrow> s
      | Some w \<Rightarrow> strip_left ws (drop (length w) s))"
  by pat_completeness auto

termination
proof (relation "measure (\<lambda>(ws, s). length s)")
  show "wf (measure (\<lambda>(ws, s). length s))" by simp
next
  fix ws s w
  assume "find (\<lambda>w. starts_with w s) ws = Some w"
  then have "starts_with w s"
    by (auto simp add: find_Some_iff)
  then have "length (take (length w) s) = length w" and "0 < length w"
    by (simp_all add: starts_with_def)
  then have "length (drop (length w) s) < length s"
    by (cases s) auto
  then show "((ws, drop (length w) s), (ws, s)) \<in> measure (\<lambda>(ws, s). length s)"
    by simp
qed

declare strip_left.simps [simp del]

text \<open>
  \<open>str.strip()\<close>: whitespace characters are removed from the front, then from the
  back (the same scan on the reversed bytes, with each encoding reversed). In
  well-formed UTF-8 a block of bytes that equals an encoding at either end of the
  text is that character, so this removes exactly the characters Python removes.
\<close>

definition py_strip :: "string \<Rightarrow> string" where
  "py_strip s = rev (strip_left (map rev whitespace) (rev (strip_left whitespace s)))"

text \<open>
  \<open>lower\<close> and \<open>upper\<close> map the ASCII letters and leave every other byte as it
  is. The program only compares their results with ASCII literals and never stores
  them: equality with \<open>begin\<close>, \<open>done\<close>, the greetings and the answer letters,
  and search for the checkpoint keywords and for \<open>rate\<close>. Python's mapping of a
  character outside ASCII yields an ASCII letter in two cases only: U+212A lowers to
  \<open>k\<close>, and U+0130 lowers to \<open>i\<close> followed by U+0307. No compared literal
  contains \<open>k\<close>, and no searched literal ends in \<open>i\<close>. No character outside
  ASCII has \<open>A\<close>, \<open>B\<close> or \<open>C\<close> as its upper case. So every comparison has the
  same outcome here as in Python.
\<close>

definition upper_letters :: string where
  "upper_letters = ''ABCDEFGHIJKLMNOPQRSTUVWXYZ''"

definition lower_letters :: string where
  "lower_letters = ''abcdefghijklmnopqrstuvwxyz''"

definition lower_char :: "char \<Rightarrow> char" where
  "lower_char c = (case map_of (zip upper_letters lower_letters) c of Some d \<Rightarrow> d | None \<Rightarrow> c)"

definition upper_char :: "char \<Rightarrow> char" where
  "upper_char c = (case map_of (zip lower_letters upper_letters) c of Some d \<Rightarrow> d | None \<Rightarrow> c)"

definition py_lower :: "string \<Rightarrow> string" where
  "py_lower s = map lower_char s"

definition py_upper :: "string \<Rightarrow> string" where
  "py_upper s = map upper_char s"

text \<open>\<open>k in s\<close> on strings: \<open>k\<close> occurs in \<open>s\<close> as a contiguous block.\<close>

fun contains :: "string \<Rightarrow> string \<Rightarrow> bool" where
  "contains k [] \<longleftrightarrow> k = []"
| "contains k (c # cs) \<longleftrightarrow> take (length k) (c # cs) = k \<or> contains k cs"

text \<open>\<open>s * n\<close> on strings: a count below one gives the empty string.\<close>

definition py_repeat :: "string \<Rightarrow> int \<Rightarrow> string" where
  "py_repeat s n = concat (replicate (nat n) s)"

text \<open>\<open>str(n)\<close> for an integer, in decimal.\<close>

fun str_nat :: "nat \<Rightarrow> string" where
  "str_nat n =
     (if n < 10 then [''0123456789'' ! n]
      else str_nat (n div 10) @ [''0123456789'' ! (n mod 10)])"

declare str_nat.simps [simp del]

definition str_int :: "int \<Rightarrow> string" where
  "str_int i = (if i < 0 then ''-'' @ str_nat (nat (- i)) else str_nat (nat i))"

text \<open>
  \<open>int(x)\<close> for a float: truncation towards zero. Timestamps and temperatures are
  Python floats; they are modelled as exact reals, so rounding in \<open>next_ok - now\<close>
  and \<open>now + 30\<close> is not represented.
\<close>

definition py_int :: "real \<Rightarrow> int" where
  "py_int x = (if 0 \<le> x then \<lfloor>x\<rfloor> else \<lceil>x\<rceil>)"

subsection \<open>Characters outside ASCII used by the program\<close>

definition ellipsis :: string where "ellipsis = [CHR 0xE2, CHR 0x80, CHR 0xA6]"
definition em_dash :: string where "em_dash = [CHR 0xE2, CHR 0x80, CHR 0x94]"
definition star_filled :: string where "star_filled = [CHR 0xE2, CHR 0x98, CHR 0x85]"
definition star_empty :: string where "star_empty = [CHR 0xE2, CHR 0x98, CHR 0x86]"
definition check_mark :: string where "check_mark = [CHR 0xE2, CHR 0x9C, CHR 0x85]"
definition waving_hand :: string where "waving_hand = [CHR 0xF0, CHR 0x9F, CHR 0x91, CHR 0x8B]"
definition sports_medal :: string where "sports_medal = [CHR 0xF0, CHR 0x9F, CHR 0x8F, CHR 0x85]"
definition party_popper :: string where "party_popper = [CHR 0xF0, CHR 0x9F, CHR 0x8E, CHR 0x89]"
definition magnifier :: string where "magnifier = [CHR 0xF0, CHR 0x9F, CHR 0x94, CHR 0x8E]"
definition hammer_wrench :: string where
  "hammer_wrench = [CHR 0xF0, CHR 0x9F, CHR 0x9B, CHR 0xA0, CHR 0xEF, CHR 0xB8, CHR 0x8F]"
definition clapping :: string where "clapping = [CHR 0xF0, CHR 0x9F, CHR 0x91, CHR 0x8F]"
definition padlock :: string where "padlock = [CHR 0xF0, CHR 0x9F, CHR 0x94, CHR 0x92]"
definition pointing :: string where "pointing = [CHR 0xF0, CHR 0x9F, CHR 0x91, CHR 0x89]"

section \<open>Session state\<close>

text \<open>
  The fields of \<open>st.session_state\<close> that the dialogue and the hint client use.
  \<open>gemini_cache\<close> and \<open>next_hint_ok_ts\<close> are keys that may be absent (\<open>None\<close>):
  \<open>init_state\<close> does not create them and a reset removes them.

  \<open>provider_calls\<close> is not a field of the program. It is a trace of the requests
  sent to the external provider (model name, prompt, temperature, maximum output
  tokens), kept so that "the provider is invoked" can be stated.
\<close>

record session =
  progress :: int
  badges :: "string list"
  module :: int
  messages :: "(string \<times> string) list"
  quiz_correct :: int
  email_captured :: bool
  gemini_ready :: bool
  gemini_model :: string
  gemini_cache :: "(string \<rightharpoonup> string) option"
  next_hint_ok_ts :: "real option"
  provider_calls :: "(string \<times> string \<times> real \<times> nat) list"

definition GEMINI_DEFAULT_MODEL :: string where
  "GEMINI_DEFAULT_MODEL = ''gemini-1.5-flash''"

definition AI_COACH_ENABLED :: bool where
  "AI_COACH_ENABLED = False"

definition HINT_COOLDOWN_SEC :: real where
  "HINT_COOLDOWN_SEC = 30"

definition init_state :: session where
  "init_state =
     \<lparr> progress = 0, badges = [], module = 0, messages = [], quiz_correct = 0,
       email_captured = False, gemini_ready = False,
       gemini_model = GEMINI_DEFAULT_MODEL,
       gemini_cache = None, next_hint_ok_ts = None, provider_calls = [] \<rparr>"

section \<open>The hint client\<close>

text \<open>
  What the outside world gives to one call: the clock reading of \<open>time.time()\<close> and
  the provider's behaviour for a request. Everything inside the \<open>try\<close> block
  (import, model construction, \<open>generate_content\<close>, reading \<open>resp.text\<close>) either
  yields a response whose text may be missing, or raises with a message.
\<close>

datatype provider_result = Response "string option" | Raised string

record env =
  now :: real
  provider :: "string \<Rightarrow> string \<Rightarrow> real \<Rightarrow> nat \<Rightarrow> provider_result"

text \<open>\<open>cache_key or prompt\<close>: an absent key and the empty key both give the prompt.\<close>

definition cache_key_or :: "string option \<Rightarrow> string \<Rightarrow> string" where
  "cache_key_or cache_key prompt =
     (case cache_key of None \<Rightarrow> prompt | Some k \<Rightarrow> if k = [] then prompt else k)"

definition unconfigured_msg :: string where
  "unconfigured_msg = ''(Hint unavailable: Gemini key not configured.)''"

definition cooldown_msg :: "int \<Rightarrow> string" where
  "cooldown_msg wait =
     ''(Cooling down '' @ str_int wait @ ''s to respect free-tier limits'' @ ellipsis @ '')''"

definition no_response_msg :: string where
  "no_response_msg = ''(No response from Gemini.)''"

definition rate_limit_msg :: string where
  "rate_limit_msg = ''(Free-tier limit hit; showing a built-in hint.)''"

definition error_msg :: "string \<Rightarrow> string" where
  "error_msg e = ''(Gemini error: '' @ e @ '')''"

definition the_cache :: "session \<Rightarrow> (string \<rightharpoonup> string)" where
  "the_cache s = (case gemini_cache s of None \<Rightarrow> Map.empty | Some c \<Rightarrow> c)"

definition next_ok_of :: "session \<Rightarrow> real" where
  "next_ok_of s = (case next_hint_ok_ts s of None \<Rightarrow> 0 | Some t \<Rightarrow> t)"

text \<open>The \<open>try\<close>/\<open>except\<close> block: the text to return and the state after it.\<close>

definition call_provider :: "env \<Rightarrow> string \<Rightarrow> real \<Rightarrow> session \<Rightarrow> string \<times> session" where
  "call_provider e prompt temp s =
     (let s1 = s\<lparr>provider_calls := provider_calls s @ [(gemini_model s, prompt, temp, 200)]\<rparr>
      in case provider e (gemini_model s) prompt temp 200 of
           Response r \<Rightarrow>
             (let stripped = py_strip (case r of None \<Rightarrow> [] | Some x \<Rightarrow> x)
              in (if stripped = [] then no_response_msg else stripped,
                  s1\<lparr>next_hint_ok_ts := Some (now e + HINT_COOLDOWN_SEC)\<rparr>))
         | Raised msg \<Rightarrow>
             if contains ''429'' msg \<or> contains ''rate'' (py_lower msg)
             then (rate_limit_msg, s1\<lparr>next_hint_ok_ts := Some (now e + HINT_COOLDOWN_SEC)\<rparr>)
             else (error_msg msg, s1))"

definition gemini_reply ::
    "env \<Rightarrow> string \<Rightarrow> real \<Rightarrow> string option \<Rightarrow> session \<Rightarrow> string \<times> session" where
  "gemini_reply e prompt temp cache_key s0 =
     (let s = s0\<lparr>gemini_cache := Some (the_cache s0)\<rparr>;
          key = cache_key_or cache_key prompt
      in case the_cache s key of
           Some cached \<Rightarrow> (cached, s)
         | None \<Rightarrow>
             if \<not> gemini_ready s then (unconfigured_msg, s)
             else if now e < next_ok_of s
             then (cooldown_msg (py_int (next_ok_of s - now e)), s)
             else (case call_provider e prompt temp s of
                     (text, s2) \<Rightarrow> (text, s2\<lparr>gemini_cache := Some ((the_cache s2)(key \<mapsto> text))\<rparr>)))"

section \<open>Dialogue helpers\<close>

definition append_message :: "string \<Rightarrow> string \<Rightarrow> session \<Rightarrow> session" where
  "append_message role content s = s\<lparr>messages := messages s @ [(role, content)]\<rparr>"

definition badge :: "string \<Rightarrow> string \<Rightarrow> session \<Rightarrow> session" where
  "badge name emoji s =
     (let label = emoji @ '' '' @ name
      in if label \<notin> set (badges s) then s\<lparr>badges := badges s @ [label]\<rparr> else s)"

definition progress_to :: "int \<Rightarrow> session \<Rightarrow> session" where
  "progress_to p s = s\<lparr>progress := max (progress s) p\<rparr>"

text \<open>
  The pattern that modules 1 and 2 repeat: when coaching is switched on and the
  provider is configured, ask the hint client (no cache key) and append its answer,
  after the given prefix, to the chat history.
\<close>

definition coach_aside :: "env \<Rightarrow> string \<Rightarrow> string \<Rightarrow> real \<Rightarrow> session \<Rightarrow> session" where
  "coach_aside e prefix prompt temp s =
     (if AI_COACH_ENABLED \<and> gemini_ready s
      then (case gemini_reply e prompt temp None s of
              (answer, s') \<Rightarrow> append_message ''assistant'' (prefix @ answer) s')
      else s)"

section \<open>Module 1\<close>

definition greetings :: "string list" where
  "greetings = [''hi'', ''hello'', ''hey'', ''yo'', ''hola'', ''help'', ''start'']"

definition checkpoint_keywords :: "string list" where
  "checkpoint_keywords = [''netflix'', ''spotify'', ''recommend'', ''maps'', ''autocorrect'',
       ''autocomplete'', ''youtube'']"

definition m1_greeting :: string where
  "m1_greeting = ''Hi! '' @ waving_hand @ '' Type **begin** to start Module 1.''"

definition m1_intro :: string where
  "m1_intro =
     ''### Module 1: What is AI?\<newline>'' @
     ''AI helps computers perform tasks like pattern recognition, prediction, and content generation.\<newline>\<newline>'' @
     ''**Checkpoint:** Name one everyday example of AI you've used or seen.''"

definition m1_quiz :: string where
  "m1_quiz =
     ''Nice! '' @ check_mark @ '' Recommendation engines (like Netflix/Spotify) are classic AI.\<newline>\<newline>'' @
     ''**Mini-Quiz:** Which statement is MOST accurate?\<newline>'' @
     ''A) AI is one algorithm.\<newline>'' @
     ''B) AI is a field with many methods, such as machine learning.\<newline>'' @
     ''C) AI is magic.\<newline>\<newline>'' @
     ''_Reply with A, B, or C._''"

definition m1_correct :: string where
  "m1_correct = ''Correct! '' @ party_popper"

definition m1_good_try :: string where
  "m1_good_try = ''Good try '' @ em_dash @ '' the best answer is **B**.''"

definition m1_moving_on :: string where
  "m1_moving_on =
     ''\<newline>\<newline>**Progress saved.** Moving to **Module 2: Prompting Basics**.\<newline>Type anything to continue.''"

definition m1_fallback :: string where
  "m1_fallback =
     ''Type **begin** to start the course, or say something like `Netflix recommendations` for the checkpoint.''"

definition m1_coach_prompt :: string where
  "m1_coach_prompt =
     ''Explain in one friendly sentence why recommendations (e.g., Netflix) are an example of AI, for a non-technical learner.''"

definition m1_praise_prompt :: string where
  "m1_praise_prompt =
     ''In one sentence, praise a learner for selecting option B (AI is a field) and add a tiny follow-up tip.''"

definition m1_correct_prompt :: string where
  "m1_correct_prompt =
     ''In one sentence, gently correct a learner who picked A or C and say why B is best, in plain English.''"

definition render_module_1 :: "env \<Rightarrow> string \<Rightarrow> session \<Rightarrow> string \<times> session" where
  "render_module_1 e user_text s =
     (let txt = py_lower (py_strip user_text)
      in if txt \<in> set greetings then (m1_greeting, s)
         else if txt = ''begin''
         then (m1_intro, badge ''Concept Spark'' sports_medal (progress_to 20 s))
         else if list_ex (\<lambda>k. contains k txt) checkpoint_keywords
         then (m1_quiz, coach_aside e ''**Tutor:** '' m1_coach_prompt 0.4 (progress_to 40 s))
         else if py_upper txt \<in> set [''A'', ''B'', ''C'']
         then (case (if py_upper txt = ''B''
                     then (m1_correct,
                           coach_aside e ''**Tutor:** '' m1_praise_prompt 0.3
                             (s\<lparr>quiz_correct := quiz_correct s + 1\<rparr>))
                     else (m1_good_try,
                           coach_aside e ''**Tutor:** '' m1_correct_prompt 0.3 s)) of
                 (msg, s1) \<Rightarrow> (msg @ m1_moving_on, (progress_to 50 s1)\<lparr>module := 2\<rparr>))
         else (m1_fallback, s))"

section \<open>Module 2\<close>

definition m2_intro :: string where
  "m2_intro =
     ''### Module 2: Prompting Basics\<newline>'' @
     ''Good prompts are **clear**, **contextual**, and **goal-oriented**.\<newline>\<newline>'' @
     ''**Task:** Rewrite this weak prompt to be specific.\<newline>'' @
     ''_Weak_: `Write marketing ideas.`\<newline>'' @
     ''Include audience, tone, and format.''"

definition m2_rubric :: "string \<Rightarrow> string" where
  "m2_rubric attempt =
     ''Rate this prompt for clarity, context, and format (1-5 each) and give one improvement tip in <=30 words:\<newline>\<newline>'' @
     attempt"

definition m2_quiz :: string where
  "m2_quiz =
     ''**Quick Check:** Which prompt yields structured output?\<newline>'' @
     ''A) `Write about AI.`\<newline>'' @
     ''B) `Create a 5-step checklist for starting with AI at a small bakery, numbered list.`\<newline>\<newline>'' @
     ''_Reply with A or B._''"

definition m2_great_pick :: string where
  "m2_great_pick = ''**Tutor:** Great pick '' @ em_dash @ '' numbered steps create structure.''"

definition m2_close :: string where
  "m2_close = ''**Tutor:** Close. Asking for numbered steps (B) yields a tidy result.''"

definition m2_moving_on :: string where
  "m2_moving_on = ''Moving to **Module 3: Hands-On**. Type anything to continue.''"

definition m2_fallback :: string where
  "m2_fallback =
     ''Try adding audience, tone, and format (e.g., Instagram posts, friendly tone, bullet list).''"

definition render_module_2 :: "env \<Rightarrow> string \<Rightarrow> session \<Rightarrow> string \<times> session" where
  "render_module_2 e user_text s =
     (if progress s < 60
      then (m2_intro, badge ''Prompt Explorer'' magnifier (progress_to 60 s))
      else
        (let attempt = py_strip user_text
         in if attempt \<noteq> [] \<and> py_upper attempt \<notin> set [''A'', ''B'']
            then (m2_quiz,
                  progress_to 80
                    (coach_aside e ''**Tutor review:** '' (m2_rubric attempt) 0.3 s))
            else if py_upper attempt \<in> set [''A'', ''B'']
            then (let s1 = (if py_upper attempt = ''B''
                            then append_message ''assistant'' m2_great_pick
                                   (s\<lparr>quiz_correct := quiz_correct s + 1\<rparr>)
                            else append_message ''assistant'' m2_close s)
                  in (m2_moving_on, progress_to 85 (s1\<lparr>module := 3\<rparr>)))
            else (m2_fallback, s)))"

section \<open>Module 3\<close>

definition m3_intro :: string where
  "m3_intro =
     ''### Module 3: Hands-On Practice\<newline>'' @
     ''Pick a quick exercise (reply with 1, 2, or 3):\<newline>'' @
     ''1) Content '' @ em_dash @ '' 5 product ideas using AI\<newline>'' @
     ''2) Customer Support '' @ em_dash @ '' empathetic reply to a delay complaint\<newline>'' @
     ''3) Data '' @ em_dash @ '' 3 ways AI can save time in spreadsheets''"

definition exercise_prompts :: "(string \<times> string) list" where
  "exercise_prompts =
     [(''1'', ''Generate 5 product ideas for eco-friendly kitchen tools.''),
      (''2'', ''Write a brief, empathetic apology for a delayed order; offer options to resolve.''),
      (''3'', ''List 3 spreadsheet automations (cleaning, categorizing, summarizing).'')]"

text \<open>
  \<open>prompts[choice]\<close> is read only when \<open>choice\<close> is one of the three keys, so the
  lookup cannot fail there.
\<close>

definition exercise_prompt :: "string \<Rightarrow> string" where
  "exercise_prompt choice = (case map_of exercise_prompts choice of Some p \<Rightarrow> p | None \<Rightarrow> [])"

definition star_rating :: "int \<Rightarrow> int \<Rightarrow> string" where
  "star_rating base q =
     py_repeat star_filled (min 5 (base + q)) @ py_repeat star_empty (max 0 (5 - (base + q)))"

definition report_head :: string where
  "report_head =
     clapping @ '' Nicely done. You've completed the free track!\<newline>\<newline>'' @
     ''## '' @ padlock @ '' Locked Level: Applied AI Playbooks\<newline>'' @
     ''- 12 advanced prompt frameworks\<newline>- Case studies + templates\<newline>- Certificate + full Report Card\<newline>\<newline>'' @
     pointing @ '' **Unlock via the AI Learning Academy:** [Enroll to unlock](https://example.com/enroll)\<newline>\<newline>'' @
     ''### Report Card (Preview)\<newline>''"

definition report_tail :: string where
  "report_tail =
     ''- Applied Practice: '' @
       star_filled @ star_filled @ star_filled @ star_empty @ star_empty @ ''\<newline>'' @
     ''- Consistency: '' @
       star_filled @ star_filled @ star_empty @ star_empty @ star_empty @ ''\<newline>\<newline>'' @
     ''_Enter your email to receive your badges + preview report & a limited-time coupon._''"

definition m3_done :: "int \<Rightarrow> string" where
  "m3_done q =
     report_head @
     ''- Concepts: '' @ star_rating 3 q @ ''\<newline>'' @
     ''- Prompt Craft: '' @ star_rating 2 q @ ''\<newline>'' @
     report_tail"

definition m3_fallback :: string where
  "m3_fallback =
     ''Reply with `1`, `2`, or `3` to pick an exercise, then type `done` when finished.''"

definition render_module_3 :: "env \<Rightarrow> string \<Rightarrow> session \<Rightarrow> string \<times> session" where
  "render_module_3 e user_text s =
     (if progress s < 90
      then (m3_intro, badge ''AI Tinkerer'' hammer_wrench (progress_to 90 s))
      else
        (let choice = py_strip user_text
         in if choice \<in> set [''1'', ''2'', ''3'']
            then (let s1 = progress_to 95 s;
                      task = exercise_prompt choice
                  in case (if gemini_ready s1 \<and> AI_COACH_ENABLED
                           then (case gemini_reply e
                                        (''Give one 15-word tip to do this well: '' @ task)
                                        0.6 None s1 of
                                   (hint_text, s2) \<Rightarrow>
                                     (''\<newline>\<newline>**Tutor tip:** '' @ hint_text, s2))
                           else ([], s1)) of
                       (hint, s2) \<Rightarrow>
                         (''Great choice! Try this: **'' @ task @ ''**'' @ hint @
                          ''\<newline>\<newline>_When you're done, type `done`._'', s2))
            else if py_lower choice = ''done''
            then (let s1 = progress_to 100 s in (m3_done (quiz_correct s1), s1))
            else (m3_fallback, s)))"

section \<open>The router\<close>

definition route :: "env \<Rightarrow> string \<Rightarrow> session \<Rightarrow> string \<times> session" where
  "route e user_text s =
     (let m = module s
      in if m = 0 then render_module_1 e user_text (s\<lparr>module := 1\<rparr>)
         else if m = 1 then render_module_1 e user_text s
         else if m = 2 then render_module_2 e user_text s
         else if m = 3 then render_module_3 e user_text s
         else (''Say **begin** to start.'', s))"

text \<open>
  A sequence of \<open>route\<close> calls, each with its own clock reading, provider behaviour
  and user input; the result is the session state after the last call.
\<close>

fun route_all :: "session \<Rightarrow> (env \<times> string) list \<Rightarrow> session" where
  "route_all s [] = s"
| "route_all s ((e, user_text) # rest) = route_all (snd (route e user_text s)) rest"

section \<open>Concrete sessions and environments\<close>

text \<open>An environment with a fixed clock reading and a provider that always behaves the same.\<close>

definition env_at :: "real \<Rightarrow> provider_result \<Rightarrow> env" where
  "env_at t r = \<lparr> now = t, provider = (\<lambda>model_name prompt temp max_tokens. r) \<rparr>"

text \<open>A fresh session whose provider key was configured.\<close>

definition ready_state :: session where
  "ready_state = init_state\<lparr>gemini_ready := True\<rparr>"

text \<open>A configured session that must not call the provider before time 100.\<close>

definition cooling_state :: session where
  "cooling_state = init_state\<lparr>gemini_ready := True, next_hint_ok_ts := Some 100\<rparr>"

text \<open>
  A provider answer with whitespace around it: a no-break space (U+00A0) and a
  blank in front, a blank behind.
\<close>

definition padded_answer :: string where
  "padded_answer = [CHR 0xC2, CHR 0xA0] @ '' Try maps. ''"

text \<open>The answer \<open>B\<close> typed between an em space (U+2003) and an ideographic space (U+3000).\<close>

definition padded_B :: string where
  "padded_B = [CHR 0xE2, CHR 0x80, CHR 0x83] @ ''B'' @ [CHR 0xE3, CHR 0x80, CHR 0x80]"

text \<open>The fresh session once the welcome state has been left.\<close>

definition module_1_state :: session where
  "module_1_state = init_state\<lparr>module := 1\<rparr>"

text \<open>Module 1 after \<open>begin\<close> and a checkpoint answer: the first quiz is open.\<close>

definition quiz_1_state :: session where
  "quiz_1_state =
     init_state\<lparr>progress := 40, badges := [sports_medal @ '' Concept Spark''], module := 1\<rparr>"

text \<open>Module 3 after an exercise was picked, with a given quiz score.\<close>

definition exercise_state :: "int \<Rightarrow> session" where
  "exercise_state q =
     init_state\<lparr>progress := 95,
       badges := [sports_medal @ '' Concept Spark'', magnifier @ '' Prompt Explorer'',
                  hammer_wrench @ '' AI Tinkerer''],
       module := 3, quiz_correct := q\<rparr>"

text \<open>
  The relation between the module reached and the quiz score: no quiz has been
  answered before module 2, one before module 3, two afterwards.
\<close>

definition quiz_inv :: "session \<Rightarrow> bool" where
  "quiz_inv s \<longleftrightarrow>
     (module s = 0 \<or> module s = 1) \<and> quiz_correct s = 0 \<or>
     module s = 2 \<and> 0 \<le> quiz_correct s \<and> quiz_correct s \<le> 1 \<or>
     module s = 3 \<and> 0 \<le> quiz_correct s \<and> quiz_correct s \<le> 2"

section \<open>Properties of the hint client\<close>

lemmas client_defs =
  gemini_reply_def call_provider_def the_cache_def next_ok_of_def cache_key_or_def Let_def
  env_at_def init_state_def ready_state_def cooling_state_def py_int_def HINT_COOLDOWN_SEC_def

lemma call_provider_calls:
  "provider_calls (snd (call_provider e p t s)) = provider_calls s @ [(gemini_model s, p, t, 200)]"
  by (simp add: call_provider_def Let_def split: provider_result.splits)

lemma call_provider_cache: "the_cache (snd (call_provider e p t s)) = the_cache s"
  by (simp add: call_provider_def Let_def the_cache_def split: provider_result.splits)

lemma the_cache_update [simp]: "the_cache (s\<lparr>gemini_cache := Some c\<rparr>) = c"
  by (simp add: the_cache_def)

lemma next_ok_cache_update [simp]: "next_ok_of (s\<lparr>gemini_cache := c\<rparr>) = next_ok_of s"
  by (simp add: next_ok_of_def)

text \<open>The four ways a call can end: cache hit, not configured, cooling down, provider asked.\<close>

lemma gemini_reply_hit:
  "the_cache s (cache_key_or ck p) = Some v \<Longrightarrow>
   gemini_reply e p t ck s = (v, s\<lparr>gemini_cache := Some (the_cache s)\<rparr>)"
  by (simp add: gemini_reply_def Let_def)

lemma gemini_reply_unconfigured:
  "the_cache s (cache_key_or ck p) = None \<Longrightarrow> \<not> gemini_ready s \<Longrightarrow>
   gemini_reply e p t ck s = (unconfigured_msg, s\<lparr>gemini_cache := Some (the_cache s)\<rparr>)"
  by (simp add: gemini_reply_def Let_def)

lemma gemini_reply_cooldown:
  "the_cache s (cache_key_or ck p) = None \<Longrightarrow> gemini_ready s \<Longrightarrow> now e < next_ok_of s \<Longrightarrow>
   gemini_reply e p t ck s =
     (cooldown_msg (py_int (next_ok_of s - now e)), s\<lparr>gemini_cache := Some (the_cache s)\<rparr>)"
  by (simp add: gemini_reply_def Let_def)

lemma gemini_reply_called:
  "the_cache s (cache_key_or ck p) = None \<Longrightarrow> gemini_ready s \<Longrightarrow> \<not> now e < next_ok_of s \<Longrightarrow>
   gemini_reply e p t ck s =
     (fst (call_provider e p t (s\<lparr>gemini_cache := Some (the_cache s)\<rparr>)),
      (snd (call_provider e p t (s\<lparr>gemini_cache := Some (the_cache s)\<rparr>)))
        \<lparr>gemini_cache := Some ((the_cache s)(cache_key_or ck p \<mapsto>
            fst (call_provider e p t (s\<lparr>gemini_cache := Some (the_cache s)\<rparr>))))\<rparr>)"
  by (simp add: gemini_reply_def Let_def case_prod_beta call_provider_cache)

lemma gemini_reply_calls_le:
  "length (provider_calls (snd (gemini_reply e p t ck s))) \<le> Suc (length (provider_calls s))"
  by (simp add: gemini_reply_def Let_def case_prod_beta call_provider_calls split: option.splits)

text \<open>
  Claim C9. A call whose key is not cached, made on a configured session strictly
  before \<open>next_hint_ok_ts\<close>, returns the cooldown sentinel with the remaining wait in
  whole seconds (the difference rounded down, which is not negative) and leaves the
  session as it was, apart from creating the cache when it was absent; in
  particular no request reaches the provider.
\<close>

theorem cooldown_sentinel:
  assumes "the_cache s (cache_key_or cache_key prompt) = None"
    and "gemini_ready s"
    and "now e < next_ok_of s"
  shows "gemini_reply e prompt temp cache_key s =
           (''(Cooling down '' @ str_int \<lfloor>next_ok_of s - now e\<rfloor> @
              ''s to respect free-tier limits'' @ ellipsis @ '')'',
            s\<lparr>gemini_cache := Some (the_cache s)\<rparr>) \<and>
         0 \<le> \<lfloor>next_ok_of s - now e\<rfloor> \<and>
         provider_calls (snd (gemini_reply e prompt temp cache_key s)) = provider_calls s"
proof -
  from assms(3) have pos: "0 \<le> next_ok_of s - now e" by simp
  then have "py_int (next_ok_of s - now e) = \<lfloor>next_ok_of s - now e\<rfloor>"
    by (simp add: py_int_def)
  with assms pos show ?thesis
    by (simp add: gemini_reply_cooldown cooldown_msg_def)
qed

theorem cooldown_sentinel_witness:
  "the_cache cooling_state (cache_key_or (Some ''hint_m1'') ''Give a hint'') = None \<and>
   gemini_ready cooling_state \<and>
   now (env_at 90 (Response (Some ''Try maps.''))) < next_ok_of cooling_state \<and>
   fst (gemini_reply (env_at 90 (Response (Some ''Try maps.''))) ''Give a hint'' 0.7
          (Some ''hint_m1'') cooling_state)
     = ''(Cooling down 10s to respect free-tier limits'' @ ellipsis @ '')'' \<and>
   provider_calls (snd (gemini_reply (env_at 90 (Response (Some ''Try maps.''))) ''Give a hint'' 0.7
          (Some ''hint_m1'') cooling_state)) = []"
proof -
  let ?e = "env_at 90 (Response (Some ''Try maps.''))"
  have h1: "the_cache cooling_state (cache_key_or (Some ''hint_m1'') ''Give a hint'') = None"
    by (simp add: the_cache_def cooling_state_def init_state_def)
  have h2: "gemini_ready cooling_state"
    by (simp add: cooling_state_def)
  have h3: "now ?e < next_ok_of cooling_state"
    by (simp add: env_at_def next_ok_of_def cooling_state_def)
  have wait: "\<lfloor>next_ok_of cooling_state - now ?e\<rfloor> = 10"
    by (simp add: env_at_def next_ok_of_def cooling_state_def)
  have calls: "provider_calls cooling_state = []"
    by (simp add: cooling_state_def init_state_def)
  show ?thesis
    using h1 h2 h3 cooldown_sentinel [OF h1 h2 h3, of "7 / 10"]
    by (simp add: wait calls str_int_def str_nat.simps)
qed

text \<open>
  Claim C1, as amended. For a call whose key is not cached: when the session is
  configured and the clock has reached \<open>next_hint_ok_ts\<close>, the provider is asked
  (one request, with the session's model, the prompt, the temperature and 200 output
  tokens), the call returns the provider's stripped text, or the no-response
  sentinel when that is empty, or the rate-limit sentinel, or the error sentinel,
  and that returned string is stored in the cache under the key before returning,
  the other entries staying as they were. When the session is not configured the
  unconfigured sentinel is returned, and when it is configured but the clock is
  still before \<open>next_hint_ok_ts\<close> the cooldown sentinel is returned; in both cases
  the cache is left as it was, so the key stays absent, and the provider is not
  asked.
\<close>

theorem provider_outcome_cached:
  assumes "the_cache s (cache_key_or cache_key prompt) = None"
  shows "(gemini_ready s \<and> \<not> now e < next_ok_of s \<longrightarrow>
            provider_calls (snd (gemini_reply e prompt temp cache_key s))
              = provider_calls s @ [(gemini_model s, prompt, temp, 200)] \<and>
            fst (gemini_reply e prompt temp cache_key s)
              = (case provider e (gemini_model s) prompt temp 200 of
                   Response r \<Rightarrow>
                     if py_strip (case r of None \<Rightarrow> [] | Some x \<Rightarrow> x) = []
                     then ''(No response from Gemini.)''
                     else py_strip (case r of None \<Rightarrow> [] | Some x \<Rightarrow> x)
                 | Raised msg \<Rightarrow>
                     if contains ''429'' msg \<or> contains ''rate'' (py_lower msg)
                     then ''(Free-tier limit hit; showing a built-in hint.)''
                     else ''(Gemini error: '' @ msg @ '')'') \<and>
            the_cache (snd (gemini_reply e prompt temp cache_key s))
              = (the_cache s)(cache_key_or cache_key prompt \<mapsto>
                   fst (gemini_reply e prompt temp cache_key s))) \<and>
         (\<not> gemini_ready s \<longrightarrow>
            fst (gemini_reply e prompt temp cache_key s)
              = ''(Hint unavailable: Gemini key not configured.)'' \<and>
            the_cache (snd (gemini_reply e prompt temp cache_key s)) = the_cache s \<and>
            provider_calls (snd (gemini_reply e prompt temp cache_key s)) = provider_calls s) \<and>
         (gemini_ready s \<and> now e < next_ok_of s \<longrightarrow>
            fst (gemini_reply e prompt temp cache_key s)
              = ''(Cooling down '' @ str_int (py_int (next_ok_of s - now e)) @
                ''s to respect free-tier limits'' @ ellipsis @ '')'' \<and>
            the_cache (snd (gemini_reply e prompt temp cache_key s)) = the_cache s \<and>
            provider_calls (snd (gemini_reply e prompt temp cache_key s)) = provider_calls s)"
proof (intro conjI impI)
  let ?s0 = "s\<lparr>gemini_cache := Some (the_cache s)\<rparr>"
  let ?c = "call_provider e prompt temp ?s0"
  assume go: "gemini_ready s \<and> \<not> now e < next_ok_of s"
  with assms have r: "gemini_reply e prompt temp cache_key s =
      (fst ?c, (snd ?c)\<lparr>gemini_cache := Some ((the_cache s)(cache_key_or cache_key prompt \<mapsto> fst ?c))\<rparr>)"
    by (simp add: gemini_reply_called)
  show "provider_calls (snd (gemini_reply e prompt temp cache_key s))
          = provider_calls s @ [(gemini_model s, prompt, temp, 200)]"
    using call_provider_calls [of e prompt temp ?s0] by (simp add: r)
  show "fst (gemini_reply e prompt temp cache_key s)
          = (case provider e (gemini_model s) prompt temp 200 of
               Response r \<Rightarrow>
                 if py_strip (case r of None \<Rightarrow> [] | Some x \<Rightarrow> x) = []
                 then ''(No response from Gemini.)''
                 else py_strip (case r of None \<Rightarrow> [] | Some x \<Rightarrow> x)
             | Raised msg \<Rightarrow>
                 if contains ''429'' msg \<or> contains ''rate'' (py_lower msg)
                 then ''(Free-tier limit hit; showing a built-in hint.)''
                 else ''(Gemini error: '' @ msg @ '')'')"
    by (simp add: r call_provider_def Let_def no_response_msg_def rate_limit_msg_def
        error_msg_def split: provider_result.splits)
  show "the_cache (snd (gemini_reply e prompt temp cache_key s))
          = (the_cache s)(cache_key_or cache_key prompt \<mapsto>
               fst (gemini_reply e prompt temp cache_key s))"
    by (simp add: r)
next
  assume "\<not> gemini_ready s"
  with assms have r: "gemini_reply e prompt temp cache_key s =
      (unconfigured_msg, s\<lparr>gemini_cache := Some (the_cache s)\<rparr>)"
    by (simp add: gemini_reply_unconfigured)
  show "fst (gemini_reply e prompt temp cache_key s)
          = ''(Hint unavailable: Gemini key not configured.)''"
    by (simp add: r unconfigured_msg_def)
  show "the_cache (snd (gemini_reply e prompt temp cache_key s)) = the_cache s"
    by (simp add: r)
  show "provider_calls (snd (gemini_reply e prompt temp cache_key s)) = provider_calls s"
    by (simp add: r)
next
  assume "gemini_ready s \<and> now e < next_ok_of s"
  with assms have r: "gemini_reply e prompt temp cache_key s =
      (cooldown_msg (py_int (next_ok_of s - now e)), s\<lparr>gemini_cache := Some (the_cache s)\<rparr>)"
    by (simp add: gemini_reply_cooldown)
  show "fst (gemini_reply e prompt temp cache_key s)
          = ''(Cooling down '' @ str_int (py_int (next_ok_of s - now e)) @
            ''s to respect free-tier limits'' @ ellipsis @ '')''"
    by (simp add: r cooldown_msg_def)
  show "the_cache (snd (gemini_reply e prompt temp cache_key s)) = the_cache s"
    by (simp add: r)
  show "provider_calls (snd (gemini_reply e prompt temp cache_key s)) = provider_calls s"
    by (simp add: r)
qed

text \<open>
  The theorem at a configured session past its cooldown, once with a provider that
  answers (with whitespace around the text, some of it outside ASCII) and once with
  one that is rate limited; at a session that is not configured; and at a configured
  session that is cooling down.
\<close>

theorem provider_outcome_cached_witness:
  "the_cache ready_state (cache_key_or (Some ''hint_m1'') ''Give a hint'') = None \<and>
   (gemini_ready ready_state \<and>
    \<not> now (env_at 5 (Response (Some padded_answer))) < next_ok_of ready_state) \<and>
   fst (gemini_reply (env_at 5 (Response (Some padded_answer)))
          ''Give a hint'' 0.7 (Some ''hint_m1'') ready_state) = ''Try maps.'' \<and>
   provider_calls (snd (gemini_reply (env_at 5 (Response (Some padded_answer)))
          ''Give a hint'' 0.7 (Some ''hint_m1'') ready_state))
     = [(''gemini-1.5-flash'', ''Give a hint'', 0.7, 200)] \<and>
   the_cache (snd (gemini_reply (env_at 5 (Response (Some padded_answer)))
          ''Give a hint'' 0.7 (Some ''hint_m1'') ready_state)) ''hint_m1'' = Some ''Try maps.'' \<and>
   the_cache (snd (gemini_reply (env_at 5 (Raised ''429 quota'')) ''Give a hint'' 0.7
                (Some ''hint_m1'') ready_state)) ''hint_m1''
     = Some ''(Free-tier limit hit; showing a built-in hint.)'' \<and>
   the_cache init_state (cache_key_or (Some ''hint_m1'') ''Give a hint'') = None \<and>
   \<not> gemini_ready init_state \<and>
   fst (gemini_reply (env_at 5 (Response (Some ''Try maps.''))) ''Give a hint'' 0.7
          (Some ''hint_m1'') init_state) = ''(Hint unavailable: Gemini key not configured.)'' \<and>
   the_cache (snd (gemini_reply (env_at 5 (Response (Some ''Try maps.''))) ''Give a hint'' 0.7
                (Some ''hint_m1'') init_state)) = the_cache init_state \<and>
   the_cache cooling_state (cache_key_or (Some ''hint_m1'') ''Give a hint'') = None \<and>
   (gemini_ready cooling_state \<and>
    now (env_at 90 (Response (Some ''Try maps.''))) < next_ok_of cooling_state) \<and>
   fst (gemini_reply (env_at 90 (Response (Some ''Try maps.''))) ''Give a hint'' 0.7
          (Some ''hint_m1'') cooling_state)
     = ''(Cooling down 10s to respect free-tier limits'' @ ellipsis @ '')'' \<and>
   provider_calls (snd (gemini_reply (env_at 90 (Response (Some ''Try maps.''))) ''Give a hint'' 0.7
          (Some ''hint_m1'') cooling_state)) = []"
proof -
  let ?ok = "env_at 5 (Response (Some padded_answer))"
  let ?limited = "env_at 5 (Raised ''429 quota'')"
  let ?plain = "env_at 5 (Response (Some ''Try maps.''))"
  let ?early = "env_at 90 (Response (Some ''Try maps.''))"
  have h1: "the_cache ready_state (cache_key_or (Some ''hint_m1'') ''Give a hint'') = None"
    by (simp add: the_cache_def ready_state_def init_state_def)
  have h2: "the_cache init_state (cache_key_or (Some ''hint_m1'') ''Give a hint'') = None"
    by (simp add: the_cache_def init_state_def)
  have h3: "the_cache cooling_state (cache_key_or (Some ''hint_m1'') ''Give a hint'') = None"
    by (simp add: the_cache_def cooling_state_def init_state_def)
  have key: "cache_key_or (Some ''hint_m1'') ''Give a hint'' = ''hint_m1''"
    by (simp add: cache_key_or_def)
  have go_ok: "gemini_ready ready_state \<and> \<not> now ?ok < next_ok_of ready_state"
    by (simp add: ready_state_def init_state_def env_at_def next_ok_of_def)
  have go_limited: "gemini_ready ready_state \<and> \<not> now ?limited < next_ok_of ready_state"
    by (simp add: ready_state_def init_state_def env_at_def next_ok_of_def)
  have unconf: "\<not> gemini_ready init_state"
    by (simp add: init_state_def)
  have cool: "gemini_ready cooling_state \<and> now ?early < next_ok_of cooling_state"
    by (simp add: cooling_state_def env_at_def next_ok_of_def)
  have wait: "str_int (py_int (next_ok_of cooling_state - now ?early)) = ''10''"
    by (simp add: cooling_state_def env_at_def next_ok_of_def py_int_def str_int_def
        str_nat.simps)
  have answer: "py_strip padded_answer = ''Try maps.''"
    by (simp add: padded_answer_def py_strip_def strip_left.simps whitespace_def starts_with_def)
  have given: "provider ?ok = (\<lambda>m p t n. Response (Some padded_answer))"
    "provider ?limited = (\<lambda>m p t n. Raised ''429 quota'')"
    by (simp_all add: env_at_def)
  have fresh: "provider_calls ready_state = []" "provider_calls cooling_state = []"
    "gemini_model ready_state = ''gemini-1.5-flash''"
    by (simp_all add: ready_state_def cooling_state_def init_state_def GEMINI_DEFAULT_MODEL_def)
  note asked = provider_outcome_cached [OF h1, of ?ok "7 / 10", THEN conjunct1, THEN mp, OF go_ok]
  note refused =
    provider_outcome_cached [OF h1, of ?limited "7 / 10", THEN conjunct1, THEN mp, OF go_limited]
  note off =
    provider_outcome_cached [OF h2, of ?plain "7 / 10", THEN conjunct2, THEN conjunct1, THEN mp,
      OF unconf]
  note early =
    provider_outcome_cached [OF h3, of ?early "7 / 10", THEN conjunct2, THEN conjunct2, THEN mp,
      OF cool]
  have asked_text:
    "fst (gemini_reply ?ok ''Give a hint'' 0.7 (Some ''hint_m1'') ready_state) = ''Try maps.''"
    using asked [THEN conjunct2, THEN conjunct1] by (simp add: given answer)
  have asked_calls:
    "provider_calls (snd (gemini_reply ?ok ''Give a hint'' 0.7 (Some ''hint_m1'') ready_state))
       = [(''gemini-1.5-flash'', ''Give a hint'', 0.7, 200)]"
    using asked [THEN conjunct1] by (simp add: fresh)
  have asked_cache:
    "the_cache (snd (gemini_reply ?ok ''Give a hint'' 0.7 (Some ''hint_m1'') ready_state))
       ''hint_m1'' = Some ''Try maps.''"
    using asked [THEN conjunct2, THEN conjunct2] by (simp add: key asked_text)
  have refused_text:
    "fst (gemini_reply ?limited ''Give a hint'' 0.7 (Some ''hint_m1'') ready_state)
       = ''(Free-tier limit hit; showing a built-in hint.)''"
    using refused [THEN conjunct2, THEN conjunct1] by (simp add: given)
  have refused_cache:
    "the_cache (snd (gemini_reply ?limited ''Give a hint'' 0.7 (Some ''hint_m1'') ready_state))
       ''hint_m1'' = Some ''(Free-tier limit hit; showing a built-in hint.)''"
    using refused [THEN conjunct2, THEN conjunct2] by (simp add: key refused_text)
  have early_text:
    "fst (gemini_reply ?early ''Give a hint'' 0.7 (Some ''hint_m1'') cooling_state)
       = ''(Cooling down 10s to respect free-tier limits'' @ ellipsis @ '')''"
    using early [THEN conjunct1] by (simp add: wait)
  have early_calls:
    "provider_calls (snd (gemini_reply ?early ''Give a hint'' 0.7 (Some ''hint_m1'')
        cooling_state)) = []"
    using early [THEN conjunct2, THEN conjunct2] by (simp add: fresh)
  show ?thesis
    using h1 go_ok asked_text asked_calls asked_cache refused_cache h2 unconf
      off [THEN conjunct1] off [THEN conjunct2, THEN conjunct1] h3 cool early_text early_calls
    by (intro conjI) simp_all
qed

theorem sentinels_not_cached:
  "fst (gemini_reply (env_at 0 (Response None)) ''Give a hint'' 0.7 (Some ''hint_m1'') init_state)
     = ''(Hint unavailable: Gemini key not configured.)'' \<and>
   the_cache (snd (gemini_reply (env_at 0 (Response None)) ''Give a hint'' 0.7 (Some ''hint_m1'')
                init_state)) ''hint_m1'' = None \<and>
   fst (gemini_reply (env_at 90 (Response None)) ''Give a hint'' 0.7 (Some ''hint_m1'') cooling_state)
     = ''(Cooling down 10s to respect free-tier limits'' @ ellipsis @ '')'' \<and>
   the_cache (snd (gemini_reply (env_at 90 (Response None)) ''Give a hint'' 0.7 (Some ''hint_m1'')
                cooling_state)) ''hint_m1'' = None"
  by (simp add: client_defs unconfigured_msg_def cooldown_msg_def str_int_def str_nat.simps)

text \<open>
  Two successive calls that look up the same key: at most one request reaches the
  provider, and unless the first call was answered by the cooldown sentinel the
  second call returns the text of the first.
\<close>

lemma same_key_twice:
  assumes same_key: "cache_key_or ck1 p1 = cache_key_or ck2 p2"
  shows "length (provider_calls (snd (gemini_reply e2 p2 t2 ck2 (snd (gemini_reply e1 p1 t1 ck1 s)))))
           \<le> length (provider_calls s) + 1 \<and>
         (\<not> (the_cache s (cache_key_or ck1 p1) = None \<and> gemini_ready s \<and> now e1 < next_ok_of s) \<longrightarrow>
            fst (gemini_reply e2 p2 t2 ck2 (snd (gemini_reply e1 p1 t1 ck1 s)))
              = fst (gemini_reply e1 p1 t1 ck1 s))"
proof -
  let ?k = "cache_key_or ck1 p1"
  let ?r1 = "gemini_reply e1 p1 t1 ck1 s"
  let ?r2 = "gemini_reply e2 p2 t2 ck2 (snd ?r1)"
  consider (hit) v where "the_cache s ?k = Some v"
    | (unconf) "the_cache s ?k = None" "\<not> gemini_ready s"
    | (cool) "the_cache s ?k = None" "gemini_ready s" "now e1 < next_ok_of s"
    | (called) "the_cache s ?k = None" "gemini_ready s" "\<not> now e1 < next_ok_of s"
    by (cases "the_cache s ?k") auto
  then show ?thesis
  proof cases
    case hit
    then have r1: "?r1 = (v, s\<lparr>gemini_cache := Some (the_cache s)\<rparr>)"
      by (rule gemini_reply_hit)
    have "the_cache (snd ?r1) (cache_key_or ck2 p2) = Some v"
      using hit same_key by (simp add: r1)
    then have "?r2 = (v, (snd ?r1)\<lparr>gemini_cache := Some (the_cache (snd ?r1))\<rparr>)"
      by (rule gemini_reply_hit)
    then show ?thesis by (simp add: r1)
  next
    case unconf
    then have r1: "?r1 = (unconfigured_msg, s\<lparr>gemini_cache := Some (the_cache s)\<rparr>)"
      by (rule gemini_reply_unconfigured)
    have "the_cache (snd ?r1) (cache_key_or ck2 p2) = None" "\<not> gemini_ready (snd ?r1)"
      using unconf same_key by (simp_all add: r1)
    then have "?r2 = (unconfigured_msg, (snd ?r1)\<lparr>gemini_cache := Some (the_cache (snd ?r1))\<rparr>)"
      by (rule gemini_reply_unconfigured)
    then show ?thesis by (simp add: r1)
  next
    case cool
    then have r1: "provider_calls (snd ?r1) = provider_calls s"
      by (simp add: gemini_reply_cooldown)
    show ?thesis
      using gemini_reply_calls_le [of e2 p2 t2 ck2 "snd ?r1"] cool by (simp add: r1)
  next
    case called
    let ?c = "call_provider e1 p1 t1 (s\<lparr>gemini_cache := Some (the_cache s)\<rparr>)"
    from called
    have r1: "?r1 = (fst ?c, (snd ?c)\<lparr>gemini_cache := Some ((the_cache s)(?k \<mapsto> fst ?c))\<rparr>)"
      by (rule gemini_reply_called)
    have "the_cache (snd ?r1) (cache_key_or ck2 p2) = Some (fst ?c)"
      using same_key by (simp add: r1)
    then have r2: "?r2 = (fst ?c, (snd ?r1)\<lparr>gemini_cache := Some (the_cache (snd ?r1))\<rparr>)"
      by (rule gemini_reply_hit)
    have "provider_calls (snd ?r1) = provider_calls s @ [(gemini_model s, p1, t1, 200)]"
      by (simp add: r1 call_provider_calls)
    then show ?thesis by (simp add: r2) (simp add: r1)
  qed
qed

text \<open>
  Claim C2, as amended. Take two successive calls with the same cache key, where
  either the cache key is given and not empty or the two prompts are equal (so that
  both calls look up the same key). Across both calls at most one request reaches
  the provider. If the first call was not answered by the cooldown sentinel (its key
  was cached, or the session is not configured, or the clock has reached
  \<open>next_hint_ok_ts\<close>), the second call returns the same text as the first, whatever
  its prompt, temperature, clock reading and provider behaviour.
\<close>

theorem same_cache_key_twice:
  assumes "(cache_key \<noteq> None \<and> cache_key \<noteq> Some []) \<or> p1 = p2"
  shows "length (provider_calls
            (snd (gemini_reply e2 p2 t2 cache_key (snd (gemini_reply e1 p1 t1 cache_key s)))))
           \<le> length (provider_calls s) + 1 \<and>
         (\<not> (the_cache s (cache_key_or cache_key p1) = None \<and> gemini_ready s \<and>
              now e1 < next_ok_of s) \<longrightarrow>
            fst (gemini_reply e2 p2 t2 cache_key (snd (gemini_reply e1 p1 t1 cache_key s)))
              = fst (gemini_reply e1 p1 t1 cache_key s))"
proof -
  from assms have "cache_key_or cache_key p1 = cache_key_or cache_key p2"
    by (auto simp add: cache_key_or_def split: option.splits)
  then show ?thesis by (rule same_key_twice)
qed

theorem same_cache_key_twice_witness:
  "((Some ''hint_m1'' \<noteq> None \<and> Some ''hint_m1'' \<noteq> Some []) \<or> ''Give a hint'' = ''Another prompt'') \<and>
   \<not> (the_cache ready_state (cache_key_or (Some ''hint_m1'') ''Give a hint'') = None \<and>
      gemini_ready ready_state \<and>
      now (env_at 5 (Response (Some ''Try maps.''))) < next_ok_of ready_state) \<and>
   length (provider_calls
      (snd (gemini_reply (env_at 50 (Response (Some ''Other text''))) ''Another prompt'' 0.2
              (Some ''hint_m1'')
              (snd (gemini_reply (env_at 5 (Response (Some ''Try maps.''))) ''Give a hint'' 0.7
                      (Some ''hint_m1'') ready_state))))) \<le> 1 \<and>
   fst (gemini_reply (env_at 50 (Response (Some ''Other text''))) ''Another prompt'' 0.2
          (Some ''hint_m1'')
          (snd (gemini_reply (env_at 5 (Response (Some ''Try maps.''))) ''Give a hint'' 0.7
                  (Some ''hint_m1'') ready_state)))
     = fst (gemini_reply (env_at 5 (Response (Some ''Try maps.''))) ''Give a hint'' 0.7
              (Some ''hint_m1'') ready_state)"
proof -
  have h: "(Some ''hint_m1'' \<noteq> None \<and> Some ''hint_m1'' \<noteq> Some []) \<or>
           ''Give a hint'' = ''Another prompt''"
    by simp
  have go: "\<not> (the_cache ready_state (cache_key_or (Some ''hint_m1'') ''Give a hint'') = None \<and>
      gemini_ready ready_state \<and>
      now (env_at 5 (Response (Some ''Try maps.''))) < next_ok_of ready_state)"
    by (simp add: ready_state_def init_state_def env_at_def next_ok_of_def)
  have calls: "provider_calls ready_state = []"
    by (simp add: ready_state_def init_state_def)
  show ?thesis
    using h go
      same_cache_key_twice [OF h, of "env_at 50 (Response (Some ''Other text''))" "2 / 10"
        "env_at 5 (Response (Some ''Try maps.''))" "7 / 10" ready_state]
    by (simp add: calls)
qed

theorem same_cache_key_differs:
  "fst (gemini_reply (env_at 90 (Response None)) ''Give a hint'' 0.7 (Some ''hint_m1'') cooling_state)
     = ''(Cooling down 10s to respect free-tier limits'' @ ellipsis @ '')'' \<and>
   fst (gemini_reply (env_at 95 (Response None)) ''Give a hint'' 0.7 (Some ''hint_m1'')
          (snd (gemini_reply (env_at 90 (Response None)) ''Give a hint'' 0.7 (Some ''hint_m1'')
                  cooling_state)))
     = ''(Cooling down 5s to respect free-tier limits'' @ ellipsis @ '')'' \<and>
   provider_calls ready_state = [] \<and>
   length (provider_calls
      (snd (gemini_reply (env_at 0 (Raised ''boom'')) ''second'' 0.7 (Some [])
              (snd (gemini_reply (env_at 0 (Raised ''boom'')) ''first'' 0.7 (Some [])
                      ready_state))))) = 2"
  by (simp add: client_defs unconfigured_msg_def cooldown_msg_def str_int_def str_nat.simps
      py_lower_def lower_char_def upper_letters_def lower_letters_def error_msg_def)

section \<open>Properties of the dialogue\<close>

lemmas text_defs =
  py_strip_def strip_left.simps whitespace_def starts_with_def py_lower_def py_upper_def lower_char_def upper_char_def
  upper_letters_def lower_letters_def greetings_def checkpoint_keywords_def

subsection \<open>What the helpers leave alone\<close>

lemma call_provider_frame:
  "progress (snd (call_provider e p t s)) = progress s"
  "badges (snd (call_provider e p t s)) = badges s"
  "module (snd (call_provider e p t s)) = module s"
  "quiz_correct (snd (call_provider e p t s)) = quiz_correct s"
  by (simp_all add: call_provider_def Let_def split: provider_result.splits)

lemma gemini_reply_frame:
  "progress (snd (gemini_reply e p t k s)) = progress s"
  "badges (snd (gemini_reply e p t k s)) = badges s"
  "module (snd (gemini_reply e p t k s)) = module s"
  "quiz_correct (snd (gemini_reply e p t k s)) = quiz_correct s"
  using call_provider_frame [of e p t "s\<lparr>gemini_cache := Some (the_cache s)\<rparr>"]
  by (auto simp: gemini_reply_def Let_def split: option.splits prod.splits)

lemma coach_aside_frame:
  "progress (coach_aside e pre p t s) = progress s"
  "badges (coach_aside e pre p t s) = badges s"
  "module (coach_aside e pre p t s) = module s"
  "quiz_correct (coach_aside e pre p t s) = quiz_correct s"
  using gemini_reply_frame [of e p t None s]
  by (simp_all add: coach_aside_def append_message_def case_prod_beta)

lemma badge_frame:
  "progress (badge n em s) = progress s"
  "module (badge n em s) = module s"
  "quiz_correct (badge n em s) = quiz_correct s"
  by (simp_all add: badge_def Let_def)

lemma badge_distinct: "distinct (badges s) \<Longrightarrow> distinct (badges (badge n em s))"
  by (simp add: badge_def Let_def)

lemma badge_member: "emoji @ '' '' @ name \<in> set (badges (badge name emoji s))"
  by (simp add: badge_def Let_def)

lemma progress_to_frame:
  "progress (progress_to p s) = max (progress s) p"
  "badges (progress_to p s) = badges s"
  "module (progress_to p s) = module s"
  "quiz_correct (progress_to p s) = quiz_correct s"
  by (simp_all add: progress_to_def)

lemma append_message_frame:
  "progress (append_message r c s) = progress s"
  "badges (append_message r c s) = badges s"
  "module (append_message r c s) = module s"
  "quiz_correct (append_message r c s) = quiz_correct s"
  by (simp_all add: append_message_def)

lemmas frames =
  coach_aside_frame badge_frame progress_to_frame append_message_frame gemini_reply_frame

subsection \<open>Progress\<close>

lemma m1_progress: "progress s \<le> progress (snd (render_module_1 e t s))"
  by (simp add: render_module_1_def Let_def frames case_prod_beta)

lemma m2_progress: "progress s \<le> progress (snd (render_module_2 e t s))"
  by (simp add: render_module_2_def Let_def frames)

lemma m3_progress: "progress s \<le> progress (snd (render_module_3 e t s))"
  by (simp add: render_module_3_def Let_def frames case_prod_beta)

lemma route_progress_mono: "progress s \<le> progress (snd (route e t s))"
  using m1_progress [of s e t] m1_progress [of "s\<lparr>module := 1\<rparr>" e t]
    m2_progress [of s e t] m3_progress [of s e t]
  by (simp add: route_def Let_def)

lemma m1_progress_upper: "progress s \<le> 100 \<Longrightarrow> progress (snd (render_module_1 e t s)) \<le> 100"
  by (simp add: render_module_1_def Let_def frames case_prod_beta)

lemma m2_progress_upper: "progress s \<le> 100 \<Longrightarrow> progress (snd (render_module_2 e t s)) \<le> 100"
  by (simp add: render_module_2_def Let_def frames)

lemma m3_progress_upper: "progress s \<le> 100 \<Longrightarrow> progress (snd (render_module_3 e t s)) \<le> 100"
  by (simp add: render_module_3_def Let_def frames case_prod_beta)

lemma route_progress_upper: "progress s \<le> 100 \<Longrightarrow> progress (snd (route e t s)) \<le> 100"
  using m1_progress_upper [of s e t] m1_progress_upper [of "s\<lparr>module := 1\<rparr>" e t]
    m2_progress_upper [of s e t] m3_progress_upper [of s e t]
  by (simp add: route_def Let_def)

lemma route_all_progress_mono: "progress s \<le> progress (route_all s steps)"
proof (induction steps arbitrary: s)
  case Nil
  show ?case by simp
next
  case (Cons step steps)
  obtain e t where step: "step = (e, t)" by (cases step)
  have "progress s \<le> progress (snd (route e t s))" by (rule route_progress_mono)
  also have "\<dots> \<le> progress (route_all (snd (route e t s)) steps)" by (rule Cons.IH)
  finally show ?case by (simp add: step)
qed

lemma route_all_progress_upper: "progress s \<le> 100 \<Longrightarrow> progress (route_all s steps) \<le> 100"
  by (induction s steps rule: route_all.induct) (simp_all add: route_progress_upper)

text \<open>
  Claim C3. From every session state, one \<open>route\<close> call with any input never lowers
  \<open>progress\<close>, and neither does any sequence of calls. A session whose \<open>progress\<close> is
  within 0..100, as it is in the initial state, keeps it within 0..100 through every
  sequence of calls.
\<close>

theorem progress_monotone_bounded:
  "progress s \<le> progress (snd (route e user_text s)) \<and>
   progress s \<le> progress (route_all s steps) \<and>
   (0 \<le> progress s \<and> progress s \<le> 100 \<longrightarrow>
      0 \<le> progress (route_all s steps) \<and> progress (route_all s steps) \<le> 100) \<and>
   0 \<le> progress (route_all init_state steps) \<and> progress (route_all init_state steps) \<le> 100"
proof -
  have mono: "progress s' \<le> progress (route_all s' steps)" for s'
    by (rule route_all_progress_mono)
  have upper: "progress s' \<le> 100 \<Longrightarrow> progress (route_all s' steps) \<le> 100" for s'
    by (rule route_all_progress_upper)
  have lower: "0 \<le> progress s' \<Longrightarrow> 0 \<le> progress (route_all s' steps)" for s'
    using mono [of s'] by simp
  have init: "progress init_state = 0"
    by (simp add: init_state_def)
  show ?thesis
    using route_progress_mono [of s e user_text] mono [of s] upper [of s] lower [of s]
      upper [of init_state] lower [of init_state]
    by (simp add: init)
qed

theorem progress_monotone_bounded_witness:
  "(0 \<le> progress quiz_1_state \<and> progress quiz_1_state \<le> 100) \<and>
   progress quiz_1_state \<le> progress (snd (route (env_at 0 (Response None)) ''B'' quiz_1_state)) \<and>
   0 \<le> progress (route_all quiz_1_state
          [(env_at 0 (Response None), ''B''), (env_at 1 (Response None), ''ok'')]) \<and>
   progress (route_all quiz_1_state
          [(env_at 0 (Response None), ''B''), (env_at 1 (Response None), ''ok'')]) \<le> 100"
proof -
  have h: "0 \<le> progress quiz_1_state \<and> progress quiz_1_state \<le> 100"
    by (simp add: quiz_1_state_def init_state_def)
  show ?thesis
    using h progress_monotone_bounded [of quiz_1_state "env_at 0 (Response None)" "''B''"
        "[(env_at 0 (Response None), ''B''), (env_at 1 (Response None), ''ok'')]"]
    by blast
qed

subsection \<open>Badges\<close>

lemma m1_distinct: "distinct (badges s) \<Longrightarrow> distinct (badges (snd (render_module_1 e t s)))"
  by (simp add: render_module_1_def Let_def frames case_prod_beta badge_distinct)

lemma m2_distinct: "distinct (badges s) \<Longrightarrow> distinct (badges (snd (render_module_2 e t s)))"
  by (simp add: render_module_2_def Let_def frames badge_distinct)

lemma m3_distinct: "distinct (badges s) \<Longrightarrow> distinct (badges (snd (render_module_3 e t s)))"
  by (simp add: render_module_3_def Let_def frames case_prod_beta badge_distinct)

lemma route_badges_distinct: "distinct (badges s) \<Longrightarrow> distinct (badges (snd (route e t s)))"
  using m1_distinct [of s e t] m1_distinct [of "s\<lparr>module := 1\<rparr>" e t]
    m2_distinct [of s e t] m3_distinct [of s e t]
  by (simp add: route_def Let_def)

lemma route_all_distinct: "distinct (badges s) \<Longrightarrow> distinct (badges (route_all s steps))"
  by (induction s steps rule: route_all.induct) (simp_all add: route_badges_distinct)

text \<open>
  Claim C5. After any sequence of \<open>route\<close> calls from the initial state the badges
  list holds no label twice; more generally a list without repetition stays without
  repetition, through one call and through any sequence of calls, however often a
  branch that awards a badge is entered.
\<close>

theorem badges_never_repeat:
  "distinct (badges (route_all init_state steps)) \<and>
   (distinct (badges s) \<longrightarrow>
      distinct (badges (snd (route e user_text s))) \<and> distinct (badges (route_all s steps)))"
proof -
  have "distinct (badges init_state)"
    by (simp add: init_state_def)
  then have "distinct (badges (route_all init_state steps))"
    by (rule route_all_distinct)
  then show ?thesis
    by (simp add: route_badges_distinct route_all_distinct)
qed

text \<open>
  The theorem at a session that already holds the first badge and receives \<open>begin\<close>
  twice more.
\<close>

theorem badges_never_repeat_witness:
  "distinct (badges quiz_1_state) \<and>
   distinct (badges (snd (route (env_at 0 (Response None)) ''begin'' quiz_1_state))) \<and>
   distinct (badges (route_all quiz_1_state
      [(env_at 0 (Response None), ''begin''), (env_at 1 (Response None), ''begin'')]))"
proof -
  have h: "distinct (badges quiz_1_state)"
    by (simp add: quiz_1_state_def init_state_def)
  show ?thesis
    using h badges_never_repeat [of "[(env_at 0 (Response None), ''begin''),
        (env_at 1 (Response None), ''begin'')]" quiz_1_state "env_at 0 (Response None)" "''begin''"]
    by blast
qed

subsection \<open>Module\<close>

lemma py_upper_single:
  assumes "py_upper txt \<in> set [''A'', ''B'', ''C'']"
  shows "\<exists>c. txt = [c]"
  using assms by (auto simp add: py_upper_def)

lemma m1_module:
  "module (snd (render_module_1 e t s)) =
     (if py_upper (py_lower (py_strip t)) \<in> set [''A'', ''B'', ''C''] then 2 else module s)"
proof (cases "py_upper (py_lower (py_strip t)) \<in> set [''A'', ''B'', ''C'']")
  case True
  then obtain c where c: "py_lower (py_strip t) = [c]"
    using py_upper_single by blast
  from True show ?thesis
    by (simp add: render_module_1_def Let_def c greetings_def checkpoint_keywords_def
        case_prod_beta)
next
  case False
  then show ?thesis
    by (simp add: render_module_1_def Let_def case_prod_beta frames)
qed

lemma m2_module:
  "module (snd (render_module_2 e t s)) = module s \<or> module (snd (render_module_2 e t s)) = 3"
  by (simp add: render_module_2_def Let_def frames)

lemma m3_module: "module (snd (render_module_3 e t s)) = module s"
  by (simp add: render_module_3_def Let_def frames case_prod_beta)

lemma route_module_step:
  "module s \<noteq> 0 \<Longrightarrow>
   module (snd (route e t s)) = module s \<or> module (snd (route e t s)) = module s + 1"
  using m1_module [of e t s] m2_module [of e t s] m3_module [of e t s]
  by (auto simp add: route_def Let_def)

lemma route_module_zero:
  "module s = 0 \<Longrightarrow>
   module (snd (route e t s)) =
     (if py_upper (py_lower (py_strip t)) \<in> set [''A'', ''B'', ''C''] then 2 else 1)"
  using m1_module [of e t "s\<lparr>module := 1\<rparr>"]
  by (simp add: route_def Let_def)

lemma route_module_mono: "module s \<le> module (snd (route e t s))"
  using route_module_step [of s e t] route_module_zero [of s e t]
  by (cases "module s = 0") auto

lemma route_module_upper: "module s \<le> 3 \<Longrightarrow> module (snd (route e t s)) \<le> 3"
  using m1_module [of e t s] m1_module [of e t "s\<lparr>module := 1\<rparr>"]
    m2_module [of e t s] m3_module [of e t s]
  by (auto simp add: route_def Let_def split: if_splits)

lemma route_all_module_mono: "module s \<le> module (route_all s steps)"
proof (induction steps arbitrary: s)
  case Nil
  show ?case by simp
next
  case (Cons step steps)
  obtain e t where step: "step = (e, t)" by (cases step)
  have "module s \<le> module (snd (route e t s))" by (rule route_module_mono)
  also have "\<dots> \<le> module (route_all (snd (route e t s)) steps)" by (rule Cons.IH)
  finally show ?case by (simp add: step)
qed

lemma route_all_module_upper: "module s \<le> 3 \<Longrightarrow> module (route_all s steps) \<le> 3"
  by (induction s steps rule: route_all.induct) (simp_all add: route_module_upper)

text \<open>
  Claim C4, as amended. A \<open>route\<close> call made at module 1, 2 or 3 (or at any value
  other than 0) changes \<open>module\<close> by exactly 0 or +1. A call made at module 0 first
  sets \<open>module\<close> to 1 and then handles the same input as module 1 does, so it ends
  at module 2 when the input, with the whitespace of \<open>str.strip()\<close> removed at
  both ends, is one of the letters A, B, C in either case, and at module 1
  otherwise. No call lowers \<open>module\<close>, and a session whose \<open>module\<close> is at
  most 3 keeps it at most 3 through every sequence of calls.
\<close>

theorem module_advances:
  "(module s \<noteq> 0 \<longrightarrow>
      module (snd (route e user_text s)) = module s \<or>
      module (snd (route e user_text s)) = module s + 1) \<and>
   (module s = 0 \<longrightarrow>
      module (snd (route e user_text s)) =
        (if py_upper (py_lower (py_strip user_text)) \<in> set [''A'', ''B'', ''C''] then 2 else 1)) \<and>
   module s \<le> module (snd (route e user_text s)) \<and>
   module s \<le> module (route_all s steps) \<and>
   (module s \<le> 3 \<longrightarrow>
      module (snd (route e user_text s)) \<le> 3 \<and> module (route_all s steps) \<le> 3)"
  using route_module_step [of s e user_text] route_module_zero [of s e user_text]
    route_module_mono [of s e user_text] route_all_module_mono [of s steps]
    route_module_upper [of s e user_text] route_all_module_upper [of s steps]
  by blast

text \<open>
  The theorem at the open first quiz (module 1) with the answer \<open>B\<close>, and at the
  initial state (module 0) with the input \<open>begin\<close> and with the answer \<open>B\<close> typed
  between two whitespace characters outside ASCII.
\<close>

theorem module_advances_witness:
  "module quiz_1_state \<noteq> 0 \<and> module quiz_1_state \<le> 3 \<and>
   (module (snd (route (env_at 0 (Response None)) ''B'' quiz_1_state)) = module quiz_1_state \<or>
    module (snd (route (env_at 0 (Response None)) ''B'' quiz_1_state)) = module quiz_1_state + 1) \<and>
   module (route_all quiz_1_state [(env_at 0 (Response None), ''B'')]) \<le> 3 \<and>
   module init_state = 0 \<and>
   module (snd (route (env_at 0 (Response None)) ''begin'' init_state)) = 1 \<and>
   module (snd (route (env_at 0 (Response None)) padded_B init_state)) = 2"
proof -
  have h1: "module quiz_1_state \<noteq> 0" "module quiz_1_state \<le> 3"
    by (simp_all add: quiz_1_state_def init_state_def)
  have h2: "module init_state = 0"
    by (simp add: init_state_def)
  have no_answer: "py_upper (py_lower (py_strip ''begin'')) \<notin> set [''A'', ''B'', ''C'']"
    by (simp add: text_defs)
  have answer: "py_upper (py_lower (py_strip padded_B)) \<in> set [''A'', ''B'', ''C'']"
    by (simp add: padded_B_def text_defs)
  show ?thesis
    using h1 h2 no_answer answer
      module_advances [of quiz_1_state "env_at 0 (Response None)" "''B''"
        "[(env_at 0 (Response None), ''B'')]"]
      module_advances [of init_state "env_at 0 (Response None)" "''begin''" "[]"]
      module_advances [of init_state "env_at 0 (Response None)" padded_B "[]"]
    by (simp del: route_all.simps)
qed

lemma m1_answer_B:
  "render_module_1 e ''B'' s =
     (m1_correct @ m1_moving_on,
      (progress_to 50 (coach_aside e ''**Tutor:** '' m1_praise_prompt 0.3
         (s\<lparr>quiz_correct := quiz_correct s + 1\<rparr>)))\<lparr>module := 2\<rparr>)"
  by (simp add: render_module_1_def Let_def text_defs)

lemma m1_answer_A:
  "render_module_1 e ''A'' s =
     (m1_good_try @ m1_moving_on,
      (progress_to 50 (coach_aside e ''**Tutor:** '' m1_correct_prompt 0.3 s))\<lparr>module := 2\<rparr>)"
  by (simp add: render_module_1_def Let_def text_defs)

theorem first_input_answer_skips:
  "module init_state = 0 \<and>
   module (snd (route (env_at 0 (Response None)) ''B'' init_state)) = 2"
  by (simp add: route_def Let_def m1_answer_B init_state_def)

subsection \<open>Quiz score\<close>

lemma m1_quiz_inv:
  "module s = 1 \<Longrightarrow> quiz_correct s = 0 \<Longrightarrow> quiz_inv (snd (render_module_1 e t s))"
  by (simp add: quiz_inv_def render_module_1_def Let_def frames case_prod_beta)

lemma m2_quiz_inv:
  "module s = 2 \<Longrightarrow> 0 \<le> quiz_correct s \<Longrightarrow> quiz_correct s \<le> 1 \<Longrightarrow>
   quiz_inv (snd (render_module_2 e t s))"
  by (simp add: quiz_inv_def render_module_2_def Let_def frames)

lemma m3_quiz_inv:
  "module s = 3 \<Longrightarrow> 0 \<le> quiz_correct s \<Longrightarrow> quiz_correct s \<le> 2 \<Longrightarrow>
   quiz_inv (snd (render_module_3 e t s))"
  by (simp add: quiz_inv_def render_module_3_def Let_def frames case_prod_beta)

lemma route_quiz_inv: "quiz_inv s \<Longrightarrow> quiz_inv (snd (route e t s))"
proof -
  assume inv: "quiz_inv s"
  then consider (zero) "module s = 0" "quiz_correct s = 0"
    | (one) "module s = 1" "quiz_correct s = 0"
    | (two) "module s = 2" "0 \<le> quiz_correct s" "quiz_correct s \<le> 1"
    | (three) "module s = 3" "0 \<le> quiz_correct s" "quiz_correct s \<le> 2"
    by (auto simp add: quiz_inv_def)
  then show ?thesis
  proof cases
    case zero
    then show ?thesis
      using m1_quiz_inv [of "s\<lparr>module := 1\<rparr>" e t] by (simp add: route_def)
  next
    case one
    then show ?thesis
      using m1_quiz_inv [of s e t] by (simp add: route_def)
  next
    case two
    then show ?thesis
      using m2_quiz_inv [of s e t] by (simp add: route_def)
  next
    case three
    then show ?thesis
      using m3_quiz_inv [of s e t] by (simp add: route_def)
  qed
qed

lemma route_all_quiz_inv: "quiz_inv s \<Longrightarrow> quiz_inv (route_all s steps)"
  by (induction s steps rule: route_all.induct) (simp_all add: route_quiz_inv)

lemma quiz_inv_bound: "quiz_inv s \<Longrightarrow> 0 \<le> quiz_correct s \<and> quiz_correct s \<le> 2"
  by (auto simp add: quiz_inv_def)

text \<open>
  Claim C10. In every session state reached from the initial state by a sequence of
  \<open>route\<close> calls, \<open>quiz_correct\<close> is at most 2 (and not negative). The same holds
  from any state at module 0 with no correct answer yet, whatever its other fields.
\<close>

theorem quiz_correct_at_most_two:
  "0 \<le> quiz_correct (route_all init_state steps) \<and>
   quiz_correct (route_all init_state steps) \<le> 2 \<and>
   (module s = 0 \<and> quiz_correct s = 0 \<longrightarrow>
      0 \<le> quiz_correct (route_all s steps) \<and> quiz_correct (route_all s steps) \<le> 2)"
proof -
  have start: "quiz_inv s'" if "module s' = 0" "quiz_correct s' = 0" for s'
    using that by (simp add: quiz_inv_def)
  have bound: "0 \<le> quiz_correct (route_all s' steps) \<and> quiz_correct (route_all s' steps) \<le> 2"
    if "module s' = 0" "quiz_correct s' = 0" for s'
    using that by (intro quiz_inv_bound route_all_quiz_inv start)
  have "module init_state = 0" "quiz_correct init_state = 0"
    by (simp_all add: init_state_def)
  then show ?thesis
    using bound [of init_state] bound [of s] by blast
qed

text \<open>
  The theorem at a configured fresh session that answers \<open>B\<close> at every turn.
\<close>

theorem quiz_correct_at_most_two_witness:
  "(module ready_state = 0 \<and> quiz_correct ready_state = 0) \<and>
   quiz_correct (route_all ready_state
      [(env_at 0 (Response None), ''B''), (env_at 1 (Response None), ''B''),
       (env_at 2 (Response None), ''B''), (env_at 3 (Response None), ''B'')]) \<le> 2"
proof -
  have h: "module ready_state = 0 \<and> quiz_correct ready_state = 0"
    by (simp add: ready_state_def init_state_def)
  show ?thesis
    using h quiz_correct_at_most_two [of "[(env_at 0 (Response None), ''B''),
        (env_at 1 (Response None), ''B''), (env_at 2 (Response None), ''B''),
        (env_at 3 (Response None), ''B'')]" ready_state]
    by blast
qed

subsection \<open>Single turns\<close>

lemma m1_begin:
  "render_module_1 e ''begin'' s =
     (m1_intro, badge ''Concept Spark'' sports_medal (progress_to 20 s))"
  by (simp add: render_module_1_def Let_def text_defs)

text \<open>
  Claim C6, as amended. At module 1, and likewise at module 0 where the router first
  moves to module 1, the input \<open>begin\<close> makes \<open>progress\<close> at least 20, makes the
  badges list contain the label made of the medal emoji, a space and
  \<open>Concept Spark\<close>, and leaves \<open>module\<close> equal to 1.
\<close>

theorem begin_at_module_1:
  assumes "module s = 0 \<or> module s = 1"
  shows "20 \<le> progress (snd (route e ''begin'' s)) \<and>
         sports_medal @ '' Concept Spark'' \<in> set (badges (snd (route e ''begin'' s))) \<and>
         module (snd (route e ''begin'' s)) = 1"
  using assms badge_member [of sports_medal "''Concept Spark''"]
  by (auto simp add: route_def Let_def m1_begin badge_def progress_to_def)

theorem begin_at_module_1_witness:
  "(module module_1_state = 0 \<or> module module_1_state = 1) \<and>
   20 \<le> progress (snd (route (env_at 0 (Response None)) ''begin'' module_1_state)) \<and>
   sports_medal @ '' Concept Spark''
     \<in> set (badges (snd (route (env_at 0 (Response None)) ''begin'' module_1_state))) \<and>
   module (snd (route (env_at 0 (Response None)) ''begin'' module_1_state)) = 1"
proof -
  have h: "module module_1_state = 0 \<or> module module_1_state = 1"
    by (simp add: module_1_state_def)
  show ?thesis
    using h begin_at_module_1 [OF h, of "env_at 0 (Response None)"] by blast
qed

theorem badge_label_has_emoji:
  "badges (snd (route (env_at 0 (Response None)) ''begin'' module_1_state))
     = [sports_medal @ '' Concept Spark''] \<and>
   ''Concept Spark''
     \<notin> set (badges (snd (route (env_at 0 (Response None)) ''begin'' module_1_state)))"
  by (simp add: route_def Let_def m1_begin badge_def progress_to_def module_1_state_def
      init_state_def sports_medal_def)

text \<open>
  Claim C7. At module 1 with \<open>progress\<close> at least 40, the input \<open>B\<close> raises
  \<open>quiz_correct\<close> by exactly 1, makes \<open>progress\<close> at least 50 and sets \<open>module\<close> to
  2; the input \<open>A\<close> in the same state leaves \<open>quiz_correct\<close> unchanged, makes
  \<open>progress\<close> at least 50 and sets \<open>module\<close> to 2.
\<close>

theorem first_quiz_answer:
  assumes "module s = 1" and "40 \<le> progress s"
  shows "quiz_correct (snd (route e ''B'' s)) = quiz_correct s + 1 \<and>
         50 \<le> progress (snd (route e ''B'' s)) \<and>
         module (snd (route e ''B'' s)) = 2 \<and>
         quiz_correct (snd (route e' ''A'' s)) = quiz_correct s \<and>
         50 \<le> progress (snd (route e' ''A'' s)) \<and>
         module (snd (route e' ''A'' s)) = 2"
  using assms
  by (simp add: route_def Let_def m1_answer_B m1_answer_A frames)

theorem first_quiz_answer_witness:
  "module quiz_1_state = 1 \<and> 40 \<le> progress quiz_1_state \<and>
   quiz_correct (snd (route (env_at 0 (Response None)) ''B'' quiz_1_state)) = 1 \<and>
   50 \<le> progress (snd (route (env_at 0 (Response None)) ''B'' quiz_1_state)) \<and>
   module (snd (route (env_at 0 (Response None)) ''B'' quiz_1_state)) = 2 \<and>
   quiz_correct (snd (route (env_at 0 (Response None)) ''A'' quiz_1_state)) = 0 \<and>
   50 \<le> progress (snd (route (env_at 0 (Response None)) ''A'' quiz_1_state)) \<and>
   module (snd (route (env_at 0 (Response None)) ''A'' quiz_1_state)) = 2"
proof -
  have h1: "module quiz_1_state = 1"
    by (simp add: quiz_1_state_def)
  have h2: "40 \<le> progress quiz_1_state"
    by (simp add: quiz_1_state_def)
  have q: "quiz_correct quiz_1_state = 0"
    by (simp add: quiz_1_state_def init_state_def)
  show ?thesis
    using h1 h2
      first_quiz_answer [OF h1 h2, of "env_at 0 (Response None)" "env_at 0 (Response None)"]
    by (simp add: q)
qed

lemma m3_done_reply:
  assumes "90 \<le> progress s"
  shows "render_module_3 e ''done'' s = (m3_done (quiz_correct s), progress_to 100 s)"
  using assms by (simp add: render_module_3_def Let_def text_defs progress_to_def)

lemma star_rating_eq:
  assumes "0 \<le> base" and "0 \<le> q" and "base \<le> 5"
  shows "star_rating base q =
           concat (replicate (nat (min 5 (base + q))) star_filled) @
           concat (replicate (5 - nat (min 5 (base + q))) star_empty)"
proof -
  have "nat (max 0 (5 - (base + q))) = 5 - nat (min 5 (base + q))"
    using assms by arith
  then show ?thesis by (simp add: star_rating_def py_repeat_def)
qed

text \<open>
  Claim C8. At module 3 with \<open>progress\<close> at least 95 (and at most 100, with a
  \<open>quiz_correct\<close> that is not negative, as in every session the program builds),
  the input \<open>done\<close> sets \<open>progress\<close> to exactly 100 and returns the report card whose
  first category shows min(5, 3 + quiz_correct) filled stars and the rest of 5 empty,
  and whose second category shows min(5, 2 + quiz_correct) filled stars and the rest
  of 5 empty. With \<open>quiz_correct = 0\<close> that is 3 filled, 2 empty and 2 filled, 3
  empty; with \<open>quiz_correct = 2\<close> it is 5 filled, none empty and 4 filled, 1 empty.
\<close>

theorem done_report_card:
  assumes "module s = 3" and "95 \<le> progress s" and "progress s \<le> 100"
    and "0 \<le> quiz_correct s"
  shows "progress (snd (route e ''done'' s)) = 100 \<and>
         fst (route e ''done'' s) =
           report_head @
           ''- Concepts: '' @
             concat (replicate (nat (min 5 (3 + quiz_correct s))) star_filled) @
             concat (replicate (5 - nat (min 5 (3 + quiz_correct s))) star_empty) @ ''\<newline>'' @
           ''- Prompt Craft: '' @
             concat (replicate (nat (min 5 (2 + quiz_correct s))) star_filled) @
             concat (replicate (5 - nat (min 5 (2 + quiz_correct s))) star_empty) @ ''\<newline>'' @
           report_tail \<and>
         (quiz_correct s = 0 \<longrightarrow>
            fst (route e ''done'' s) =
              report_head @
              ''- Concepts: '' @
                star_filled @ star_filled @ star_filled @ star_empty @ star_empty @ ''\<newline>'' @
              ''- Prompt Craft: '' @
                star_filled @ star_filled @ star_empty @ star_empty @ star_empty @ ''\<newline>'' @
              report_tail) \<and>
         (quiz_correct s = 2 \<longrightarrow>
            fst (route e ''done'' s) =
              report_head @
              ''- Concepts: '' @
                star_filled @ star_filled @ star_filled @ star_filled @ star_filled @ ''\<newline>'' @
              ''- Prompt Craft: '' @
                star_filled @ star_filled @ star_filled @ star_filled @ star_empty @ ''\<newline>'' @
              report_tail)"
proof -
  have reply: "route e ''done'' s = (m3_done (quiz_correct s), progress_to 100 s)"
    using assms by (simp add: route_def m3_done_reply)
  have p: "progress (snd (route e ''done'' s)) = 100"
    using assms by (simp add: reply progress_to_def)
  have general: "fst (route e ''done'' s) =
           report_head @
           ''- Concepts: '' @
             concat (replicate (nat (min 5 (3 + quiz_correct s))) star_filled) @
             concat (replicate (5 - nat (min 5 (3 + quiz_correct s))) star_empty) @ ''\<newline>'' @
           ''- Prompt Craft: '' @
             concat (replicate (nat (min 5 (2 + quiz_correct s))) star_filled) @
             concat (replicate (5 - nat (min 5 (2 + quiz_correct s))) star_empty) @ ''\<newline>'' @
           report_tail"
    using assms(4) by (simp add: reply m3_done_def star_rating_eq)
  have zero: "fst (route e ''done'' s) =
              report_head @
              ''- Concepts: '' @
                star_filled @ star_filled @ star_filled @ star_empty @ star_empty @ ''\<newline>'' @
              ''- Prompt Craft: '' @
                star_filled @ star_filled @ star_empty @ star_empty @ star_empty @ ''\<newline>'' @
              report_tail" if "quiz_correct s = 0"
    using that by (simp add: reply m3_done_def star_rating_def py_repeat_def numeral_eq_Suc)
  have two: "fst (route e ''done'' s) =
              report_head @
              ''- Concepts: '' @
                star_filled @ star_filled @ star_filled @ star_filled @ star_filled @ ''\<newline>'' @
              ''- Prompt Craft: '' @
                star_filled @ star_filled @ star_filled @ star_filled @ star_empty @ ''\<newline>'' @
              report_tail" if "quiz_correct s = 2"
    using that by (simp add: reply m3_done_def star_rating_def py_repeat_def numeral_eq_Suc)
  from p general zero two show ?thesis by blast
qed

theorem done_report_card_witness:
  "module (exercise_state 2) = 3 \<and> 95 \<le> progress (exercise_state 2) \<and>
   progress (exercise_state 2) \<le> 100 \<and> 0 \<le> quiz_correct (exercise_state 2) \<and>
   quiz_correct (exercise_state 2) = 2 \<and>
   progress (snd (route (env_at 0 (Response None)) ''done'' (exercise_state 2))) = 100 \<and>
   fst (route (env_at 0 (Response None)) ''done'' (exercise_state 2)) =
     report_head @
     ''- Concepts: '' @
       star_filled @ star_filled @ star_filled @ star_filled @ star_filled @ ''\<newline>'' @
     ''- Prompt Craft: '' @
       star_filled @ star_filled @ star_filled @ star_filled @ star_empty @ ''\<newline>'' @
     report_tail"
proof -
  have h1: "module (exercise_state 2) = 3"
    by (simp add: exercise_state_def)
  have h2: "95 \<le> progress (exercise_state 2)"
    by (simp add: exercise_state_def)
  have h3: "progress (exercise_state 2) \<le> 100"
    by (simp add: exercise_state_def)
  have h4: "0 \<le> quiz_correct (exercise_state 2)"
    by (simp add: exercise_state_def)
  have q: "quiz_correct (exercise_state 2) = 2"
    by (simp add: exercise_state_def)
  show ?thesis
    using h1 h2 h3 h4 q done_report_card [OF h1 h2 h3 h4, of "env_at 0 (Response None)"]
    by blast
qed

end
